theory Spec2Isabelle
  imports Main "HOL-Library.Sublist"
begin

section \<open>A URL shortener: the link registry of \<open>main.py\<close>\<close>

text \<open>
  The repository holds one FastAPI application, twice: \<^verbatim>\<open>src/main.py\<close> and
  \<^verbatim>\<open>src/Backend text submition/main.py\<close>. The second file adds logging, OpenAPI
  metadata and a browser launcher; its three handlers \<^verbatim>\<open>create_short_url\<close>,
  \<^verbatim>\<open>redirect_url\<close> and \<^verbatim>\<open>stats\<close> have the same bodies as the first file's, apart
  from \<^verbatim>\<open>logger.info\<close> lines that touch no state. One embedding serves both.

  The handlers read three things from outside: the clock (\<^verbatim>\<open>datetime.utcnow()\<close>), the
  random generator (\<^verbatim>\<open>random.choices\<close>) and the module-level dict \<^verbatim>\<open>urls\<close>. The
  clock readings and the entropy are arguments of the model, in the order the handler
  takes them; the dict is passed in and returned.
\<close>

subsection \<open>Python's naive \<open>datetime\<close> and \<open>timedelta\<close>\<close>

text \<open>
  A naive \<^verbatim>\<open>datetime\<close> is a point of the proleptic Gregorian calendar between
  \<^verbatim>\<open>0001-01-01T00:00:00\<close> and \<^verbatim>\<open>9999-12-31T23:59:59.999999\<close>, with microsecond
  resolution. It is modelled by the number of microseconds since \<^verbatim>\<open>datetime.min\<close>;
  the order of \<^verbatim>\<open>datetime\<close> is the order of these numbers. Arithmetic that leaves
  the range raises \<^verbatim>\<open>OverflowError\<close>.
\<close>

type_synonym datetime = int

definition us_per_minute :: int where
  "us_per_minute = 60000000"

definition us_per_day :: int where
  "us_per_day = 86400000000"

text \<open>\<^verbatim>\<open>datetime.max.toordinal() = 3652059\<close>: the days from 0001-01-01 to 9999-12-31.\<close>

definition max_ordinal :: int where
  "max_ordinal = 3652059"

definition datetime_max :: datetime where
  "datetime_max = max_ordinal * us_per_day - 1"

definition valid_datetime :: "datetime \<Rightarrow> bool" where
  "valid_datetime t = (0 \<le> t \<and> t \<le> datetime_max)"

text \<open>
  The handlers raise \<^verbatim>\<open>HTTPException(status_code, detail)\<close>; the datetime arithmetic
  of \<^verbatim>\<open>create_short_url\<close> can raise \<^verbatim>\<open>OverflowError\<close>, which no handler catches.
\<close>

datatype error = HTTPException nat string | OverflowError

text \<open>
  \<^verbatim>\<open>timedelta(minutes=v)\<close>: the constructor normalises to days, seconds and
  microseconds and raises when the days exceed 999999999 in magnitude. For whole
  minutes the days are \<open>v * 60 div 86400\<close>. The result is the duration in microseconds.
\<close>

definition timedelta_minutes :: "int \<Rightarrow> error + int" where
  "timedelta_minutes v =
     (if \<bar>(v * 60) div 86400\<bar> > 999999999 then Inl OverflowError
      else Inr (v * us_per_minute))"

text \<open>\<^verbatim>\<open>datetime + timedelta\<close>: \<^verbatim>\<open>OverflowError\<close> ("date value out of range") outside the range.\<close>

definition datetime_add :: "datetime \<Rightarrow> int \<Rightarrow> error + datetime" where
  "datetime_add t d =
     (if valid_datetime (t + d) then Inr (t + d) else Inl OverflowError)"

subsection \<open>\<open>datetime.isoformat()\<close>\<close>

text \<open>
  \<^verbatim>\<open>isoformat\<close> prints \<^verbatim>\<open>"%04d-%02d-%02dT%02d:%02d:%02d"\<close>, followed by
  \<^verbatim>\<open>".%06d"\<close> of the microseconds when they are not zero. The calendar date of a day
  number is computed as the standard library's \<^verbatim>\<open>_ord2ymd\<close> does.
\<close>

definition digit_char :: "nat \<Rightarrow> char" where
  "digit_char d = ''0123456789'' ! d"

fun dec :: "nat \<Rightarrow> string" where
  "dec n = (if n < 10 then [digit_char n] else dec (n div 10) @ [digit_char (n mod 10)])"

declare dec.simps [simp del]

text \<open>\<^verbatim>\<open>"%0wd" % n\<close> for \<open>n \<ge> 0\<close>: at least \<open>w\<close> digits, padded with zeros on the left.\<close>

definition zfill :: "nat \<Rightarrow> int \<Rightarrow> string" where
  "zfill w n = replicate (w - length (dec (nat n))) (CHR ''0'') @ dec (nat n)"

definition DI400Y :: int where "DI400Y = 146097"
definition DI100Y :: int where "DI100Y = 36524"
definition DI4Y :: int where "DI4Y = 1461"

definition DAYS_IN_MONTH :: "int list" where
  "DAYS_IN_MONTH = [-1, 31, 28, 31, 30, 31, 30, 31, 31, 30, 31, 30, 31]"

definition DAYS_BEFORE_MONTH :: "int list" where
  "DAYS_BEFORE_MONTH = [-1, 0, 31, 59, 90, 120, 151, 181, 212, 243, 273, 304, 334]"

definition of_bool_int :: "bool \<Rightarrow> int" where
  "of_bool_int b = (if b then 1 else 0)"

text \<open>\<^verbatim>\<open>_ord2ymd(n)\<close>: ordinal (0001-01-01 is day 1) to (year, month, day).\<close>

definition ord2ymd :: "int \<Rightarrow> int \<times> int \<times> int" where
  "ord2ymd n0 =
     (let n = n0 - 1;
          n400 = n div DI400Y; n = n mod DI400Y;
          year = n400 * 400 + 1;
          n100 = n div DI100Y; n = n mod DI100Y;
          n4 = n div DI4Y; n = n mod DI4Y;
          n1 = n div 365; n = n mod 365;
          year = year + n100 * 100 + n4 * 4 + n1
      in if n1 = 4 \<or> n100 = 4 then (year - 1, 12, 31)
         else
           let leapyear = (n1 = 3 \<and> (n4 \<noteq> 24 \<or> n100 = 3));
               month = (n + 50) div 32;
               preceding = DAYS_BEFORE_MONTH ! nat month
                           + of_bool_int (month > 2 \<and> leapyear)
           in if preceding > n
              then (year, month - 1,
                    n - (preceding - (DAYS_IN_MONTH ! nat (month - 1)
                                      + of_bool_int (month - 1 = 2 \<and> leapyear))) + 1)
              else (year, month, n - preceding + 1))"

definition isoformat :: "datetime \<Rightarrow> string" where
  "isoformat t =
     (let (year, month, day) = ord2ymd (t div us_per_day + 1);
          r = t mod us_per_day;
          hour = r div 3600000000;
          minute = (r div 60000000) mod 60;
          second = (r div 1000000) mod 60;
          us = r mod 1000000
      in zfill 4 year @ ''-'' @ zfill 2 month @ ''-'' @ zfill 2 day @ ''T''
         @ zfill 2 hour @ '':'' @ zfill 2 minute @ '':'' @ zfill 2 second
         @ (if us \<noteq> 0 then ''.'' @ zfill 6 us else []))"

text \<open>
  The shape of the result: \<^verbatim>\<open>YYYY-MM-DDTHH:MM:SS\<close>, or with \<^verbatim>\<open>.ffffff\<close> appended, the
  extended format of ISO 8601 for a date and a time of day. In a pattern, \<^verbatim>\<open>d\<close> stands
  for a decimal digit and any other character for itself.
\<close>

definition is_digit :: "char \<Rightarrow> bool" where
  "is_digit c = (c \<in> set ''0123456789'')"

fun matches :: "string \<Rightarrow> string \<Rightarrow> bool" where
  "matches [] [] = True"
| "matches (p # ps) (c # cs) = ((if p = CHR ''d'' then is_digit c else c = p) \<and> matches ps cs)"
| "matches _ _ = False"

definition iso8601_form :: "string \<Rightarrow> bool" where
  "iso8601_form s =
     (matches ''dddd-dd-ddTdd:dd:dd'' s \<or> matches ''dddd-dd-ddTdd:dd:dd.dddddd'' s)"

subsection \<open>Data model\<close>

text \<open>
  \<^verbatim>\<open>class UrlRequest(BaseModel): url: str; validity: int = 30; shortcode: str = None\<close>.
  A request body may omit \<^verbatim>\<open>validity\<close> and \<^verbatim>\<open>shortcode\<close>; \<open>UrlRequest_of_body\<close> fills
  in the defaults as the model class does.
\<close>

record UrlRequest =
  req_url :: string
  req_validity :: int
  req_shortcode :: "string option"

definition UrlRequest_of_body :: "string \<Rightarrow> int option \<Rightarrow> string option \<Rightarrow> UrlRequest" where
  "UrlRequest_of_body u v s =
     \<lparr>req_url = u, req_validity = (case v of None \<Rightarrow> 30 | Some n \<Rightarrow> n), req_shortcode = s\<rparr>"

record UrlResponse =
  shortLink :: string
  expiry :: string

text \<open>
  What the handlers read of the framework's \<^verbatim>\<open>Request\<close>: \<^verbatim>\<open>str(request.base_url)\<close>,
  \<^verbatim>\<open>request.headers\<close> (names in lower case, in the order received) and
  \<^verbatim>\<open>request.client.host\<close>. The application is served over TCP
  (\<^verbatim>\<open>uvicorn.run("main:app", host="127.0.0.1", port=8000)\<close>), where every request
  carries the address of its client.
\<close>

record Request =
  base_url :: string
  headers :: "(string \<times> string) list"
  client_host :: string

text \<open>A click, as appended by \<^verbatim>\<open>redirect_url\<close>: a dict with these three keys.\<close>

record click =
  timestamp :: string
  referrer :: string
  ip :: string

text \<open>A value of \<^verbatim>\<open>urls\<close>: the dict \<^verbatim>\<open>{"url": ..., "expiry": ..., "clicks": [...]}\<close>.\<close>

record entry =
  entry_url :: string
  entry_expiry :: datetime
  entry_clicks :: "click list"

type_synonym registry = "string \<rightharpoonup> entry"

subsection \<open>\<open>generate_shortcode\<close>\<close>

text \<open>\<^verbatim>\<open>string.ascii_letters + string.digits\<close>.\<close>

definition ascii_lowercase :: string where
  "ascii_lowercase = ''abcdefghijklmnopqrstuvwxyz''"

definition ascii_uppercase :: string where
  "ascii_uppercase = ''ABCDEFGHIJKLMNOPQRSTUVWXYZ''"

definition ascii_letters :: string where
  "ascii_letters = ascii_lowercase @ ascii_uppercase"

definition digits :: string where
  "digits = ''0123456789''"

text \<open>
  \<^verbatim>\<open>random.choices(population, k=k)\<close> makes \<open>k\<close> independent draws
  \<^verbatim>\<open>population[floor(random() * n)]\<close> with \<open>n = len(population)\<close>. The entropy is the
  argument \<open>rnd\<close>: its \<open>i\<close>-th value, reduced modulo \<open>n\<close>, is the index of the \<open>i\<close>-th draw,
  so that every entropy denotes a legal draw and every legal draw is denoted.
\<close>

definition choices :: "(nat \<Rightarrow> nat) \<Rightarrow> 'a list \<Rightarrow> nat \<Rightarrow> 'a list" where
  "choices rnd population k = map (\<lambda>i. population ! (rnd i mod length population)) [0..<k]"

definition generate_shortcode :: "(nat \<Rightarrow> nat) \<Rightarrow> nat \<Rightarrow> string" where
  "generate_shortcode rnd len = choices rnd (ascii_letters @ digits) len"

subsection \<open>\<open>create_short_url\<close>\<close>

text \<open>\<^verbatim>\<open>data.shortcode or generate_shortcode()\<close>: \<^verbatim>\<open>None\<close> and \<^verbatim>\<open>""\<close> are falsy.\<close>

definition shortcode_or :: "string option \<Rightarrow> string \<Rightarrow> string" where
  "shortcode_or given generated =
     (case given of None \<Rightarrow> generated | Some s \<Rightarrow> if s = [] then generated else s)"

text \<open>\<^verbatim>\<open>s.rstrip("/")\<close>.\<close>

definition rstrip_slash :: "string \<Rightarrow> string" where
  "rstrip_slash s = rev (dropWhile (\<lambda>c. c = CHR ''/'') (rev s))"

definition create_short_url ::
  "(nat \<Rightarrow> nat) \<Rightarrow> datetime \<Rightarrow> UrlRequest \<Rightarrow> Request \<Rightarrow> registry
     \<Rightarrow> (error + UrlResponse) \<times> registry" where
  "create_short_url rnd now data request urls =
     (let shortcode = shortcode_or (req_shortcode data) (generate_shortcode rnd 5)
      in if urls shortcode \<noteq> None
         then (Inl (HTTPException 400 ''Shortcode already exists''), urls)
         else
           case timedelta_minutes (req_validity data) of
             Inl e \<Rightarrow> (Inl e, urls)
           | Inr delta \<Rightarrow>
               (case datetime_add now delta of
                  Inl e \<Rightarrow> (Inl e, urls)
                | Inr expiry_at \<Rightarrow>
                    let urls' = urls(shortcode \<mapsto>
                          \<lparr>entry_url = req_url data, entry_expiry = expiry_at, entry_clicks = []\<rparr>);
                        host = rstrip_slash (base_url request)
                    in (Inr \<lparr>shortLink = host @ ''/'' @ shortcode, expiry = isoformat expiry_at\<rparr>,
                        urls')))"

subsection \<open>\<open>redirect_url\<close>\<close>

text \<open>
  \<^verbatim>\<open>request.headers.get(name, default)\<close>: the value of the first header of that name,
  the default when there is none.
\<close>

definition headers_get :: "(string \<times> string) list \<Rightarrow> string \<Rightarrow> string \<Rightarrow> string" where
  "headers_get hs name dflt = (case map_of hs name of None \<Rightarrow> dflt | Some v \<Rightarrow> v)"

record redirect_response =
  redirect_to :: string

text \<open>
  The handler reads the clock twice: \<open>now\<close> is the reading compared with the expiry,
  \<open>now'\<close> the later one printed into the click. The click is appended to the list held
  by the entry, which is the entry stored in \<^verbatim>\<open>urls\<close>.
\<close>

definition redirect_url ::
  "datetime \<Rightarrow> datetime \<Rightarrow> string \<Rightarrow> Request \<Rightarrow> registry
     \<Rightarrow> (error + redirect_response) \<times> registry" where
  "redirect_url now now' shortcode request urls =
     (case urls shortcode of
        None \<Rightarrow> (Inl (HTTPException 404 ''Shortcode not found''), urls)
      | Some e \<Rightarrow>
          if now > entry_expiry e
          then (Inl (HTTPException 410 ''Link expired''), urls)
          else
            let c = \<lparr>timestamp = isoformat now',
                     referrer = headers_get (headers request) ''referer'' ''unknown'',
                     ip = client_host request\<rparr>;
                urls' = urls(shortcode \<mapsto> e\<lparr>entry_clicks := entry_clicks e @ [c]\<rparr>)
            in (Inr \<lparr>redirect_to = entry_url e\<rparr>, urls'))"

subsection \<open>\<open>stats\<close>\<close>

record stats_response =
  stats_url :: string
  stats_expiry :: string
  total_clicks :: nat
  click_data :: "click list"

text \<open>\<^verbatim>\<open>stats\<close> reads \<^verbatim>\<open>urls\<close> and the entry and writes neither.\<close>

definition stats :: "string \<Rightarrow> registry \<Rightarrow> error + stats_response" where
  "stats shortcode urls =
     (case urls shortcode of
        None \<Rightarrow> Inl (HTTPException 404 ''Shortcode not found'')
      | Some e \<Rightarrow>
          Inr \<lparr>stats_url = entry_url e,
               stats_expiry = isoformat (entry_expiry e),
               total_clicks = length (entry_clicks e),
               click_data = entry_clicks e\<rparr>)"

subsection \<open>Sequences of requests\<close>

text \<open>
  The process serves requests one after another on the one dict. A request is a call of
  one of the three handlers with what it reads from outside; \<open>handle\<close> is its effect on
  the registry and \<open>run\<close> the effect of a sequence, first request first.
\<close>

datatype call =
    Create "nat \<Rightarrow> nat" datetime UrlRequest Request
  | Resolve datetime datetime string Request
  | GetStats string

fun handle :: "call \<Rightarrow> registry \<Rightarrow> registry" where
  "handle (Create rnd now data request) urls = snd (create_short_url rnd now data request urls)"
| "handle (Resolve now now' shortcode request) urls =
     snd (redirect_url now now' shortcode request urls)"
| "handle (GetStats shortcode) urls = urls"

fun run :: "call list \<Rightarrow> registry \<Rightarrow> registry" where
  "run [] urls = urls"
| "run (c # cs) urls = run cs (handle c urls)"

text \<open>Whether a request is a \<^verbatim>\<open>redirect_url\<close> of the shortcode that returns normally.\<close>

fun resolved :: "string \<Rightarrow> call \<Rightarrow> registry \<Rightarrow> bool" where
  "resolved sc (Resolve now now' shortcode request) urls =
     (shortcode = sc \<and> \<not> isl (fst (redirect_url now now' shortcode request urls)))"
| "resolved sc (Create rnd now data request) urls = False"
| "resolved sc (GetStats shortcode) urls = False"

text \<open>The number of such requests in a sequence served from the registry \<open>urls\<close>.\<close>

fun resolves :: "string \<Rightarrow> call list \<Rightarrow> registry \<Rightarrow> nat" where
  "resolves sc [] urls = 0"
| "resolves sc (c # cs) urls =
     (if resolved sc c urls then 1 else 0) + resolves sc cs (handle c urls)"

text \<open>
  The clicks that the requests of a sequence add to the log of a shortcode: one for each
  \<^verbatim>\<open>redirect_url\<close> of it that returns normally, as that call builds it, in the order
  of the requests.
\<close>

fun logged :: "string \<Rightarrow> call list \<Rightarrow> registry \<Rightarrow> click list" where
  "logged sc [] urls = []"
| "logged sc (Resolve now now' shortcode request # cs) urls =
     (if resolved sc (Resolve now now' shortcode request) urls
      then [\<lparr>timestamp = isoformat now',
             referrer = headers_get (headers request) ''referer'' ''unknown'',
             ip = client_host request\<rparr>]
      else [])
     @ logged sc cs (handle (Resolve now now' shortcode request) urls)"
| "logged sc (c # cs) urls = logged sc cs (handle c urls)"

subsection \<open>Sample data\<close>

text \<open>
  A request as the development server receives it, a clock reading
  (\<^verbatim>\<open>2024-04-24T00:00:00\<close>), an entropy (it generates \<^verbatim>\<open>abcde\<close>) and the registry
  after one \<^verbatim>\<open>POST /shorturls\<close> with the shortcode \<^verbatim>\<open>dup\<close>.
\<close>

definition sample_request :: Request where
  "sample_request =
     \<lparr>base_url = ''http://127.0.0.1:8000/'',
      headers = [(''referer'', ''https://ref.example/'')],
      client_host = ''127.0.0.1''\<rparr>"

definition sample_now :: datetime where
  "sample_now = 738999 * us_per_day"

definition sample_rnd :: "nat \<Rightarrow> nat" where
  "sample_rnd i = i"

definition sample_registry :: registry where
  "sample_registry =
     snd (create_short_url sample_rnd sample_now
            (UrlRequest_of_body ''https://a.com'' None (Some ''dup'')) sample_request Map.empty)"

text \<open>A clock reading 31 minutes later: past the default validity of 30 minutes.\<close>

definition sample_late :: datetime where
  "sample_late = sample_now + 31 * us_per_minute"

section \<open>Properties\<close>

subsection \<open>Auxiliary facts\<close>

lemma shortcode_or_given: "s \<noteq> [] \<Longrightarrow> shortcode_or (Some s) g = s"
  by (simp add: shortcode_or_def)

lemma shortcode_or_absent: "shortcode_or None g = g" "shortcode_or (Some []) g = g"
  by (simp_all add: shortcode_or_def)

lemmas create_eval = create_short_url_def shortcode_or_def timedelta_minutes_def
  datetime_add_def valid_datetime_def datetime_max_def max_ordinal_def us_per_day_def
  us_per_minute_def UrlRequest_of_body_def sample_now_def Let_def

lemma sample_registry_eq:
  "sample_registry =
     [''dup'' \<mapsto> \<lparr>entry_url = ''https://a.com'', entry_expiry = 63849515400000000,
                      entry_clicks = []\<rparr>]"
  by (simp add: sample_registry_def create_eval)

lemma create_failure:
  "fst (create_short_url rnd now data request urls) = Inl err
     \<Longrightarrow> snd (create_short_url rnd now data request urls) = urls"
  by (simp add: create_short_url_def Let_def split: if_splits sum.splits)

lemma create_success:
  assumes "create_short_url rnd now data request urls = (Inr resp, urls')"
  shows "urls (shortcode_or (req_shortcode data) (generate_shortcode rnd 5)) = None"
    and "urls' = urls(shortcode_or (req_shortcode data) (generate_shortcode rnd 5) \<mapsto>
           \<lparr>entry_url = req_url data,
            entry_expiry = now + req_validity data * us_per_minute,
            entry_clicks = []\<rparr>)"
    and "resp = \<lparr>shortLink = rstrip_slash (base_url request) @ ''/''
                   @ shortcode_or (req_shortcode data) (generate_shortcode rnd 5),
                 expiry = isoformat (now + req_validity data * us_per_minute)\<rparr>"
    and "valid_datetime (now + req_validity data * us_per_minute)"
  using assms
  by (auto simp add: create_short_url_def Let_def timedelta_minutes_def datetime_add_def
      split: if_splits sum.splits)

lemma create_keeps_entry:
  "urls k = Some e \<Longrightarrow> snd (create_short_url rnd now data request urls) k = Some e"
  by (auto simp add: create_short_url_def Let_def split: if_splits sum.splits)

lemma create_new_entry:
  "urls k = None \<Longrightarrow> snd (create_short_url rnd now data request urls) k = Some e
     \<Longrightarrow> entry_clicks e = []"
  by (auto simp add: create_short_url_def Let_def split: if_splits sum.splits)

lemma redirect_other_key:
  "k \<noteq> sc \<Longrightarrow> snd (redirect_url now now' sc request urls) k = urls k"
  by (simp add: redirect_url_def Let_def split: option.splits)

lemma redirect_absent:
  "urls k = None \<Longrightarrow> snd (redirect_url now now' sc request urls) k = None"
  by (cases "k = sc") (simp_all add: redirect_url_def Let_def split: option.splits)

lemma redirect_success:
  assumes "urls sc = Some e" "now \<le> entry_expiry e"
  shows "redirect_url now now' sc request urls =
           (Inr \<lparr>redirect_to = entry_url e\<rparr>,
            urls(sc \<mapsto> e\<lparr>entry_clicks := entry_clicks e @
              [\<lparr>timestamp = isoformat now',
                referrer = headers_get (headers request) ''referer'' ''unknown'',
                ip = client_host request\<rparr>]\<rparr>))"
  using assms by (simp add: redirect_url_def Let_def)

lemma redirect_expired:
  assumes "urls sc = Some e" "now > entry_expiry e"
  shows "redirect_url now now' sc request urls = (Inl (HTTPException 410 ''Link expired''), urls)"
  using assms by (simp add: redirect_url_def)

lemma redirect_not_found:
  assumes "urls sc = None"
  shows "redirect_url now now' sc request urls
           = (Inl (HTTPException 404 ''Shortcode not found''), urls)"
  using assms by (simp add: redirect_url_def)

lemma handle_logged:
  assumes "urls sc = Some e"
  shows "\<exists>e'. handle c urls sc = Some e' \<and> entry_url e' = entry_url e
           \<and> entry_expiry e' = entry_expiry e
           \<and> entry_clicks e' = entry_clicks e @ logged sc [c] urls"
proof (cases c)
  case (Create rnd now data request)
  with assms show ?thesis by (simp add: create_keeps_entry)
next
  case (Resolve now now' k request)
  show ?thesis
  proof (cases "k = sc")
    case True
    show ?thesis
    proof (cases "now \<le> entry_expiry e")
      case True
      with assms \<open>k = sc\<close> Resolve show ?thesis
        by (simp add: redirect_success)
    next
      case False
      with assms \<open>k = sc\<close> Resolve show ?thesis
        by (simp add: redirect_expired)
    qed
  next
    case False
    with assms Resolve show ?thesis
      by (simp add: redirect_other_key)
  qed
next
  case (GetStats k)
  with assms show ?thesis by simp
qed

lemma logged_Cons: "logged sc (c # cs) urls = logged sc [c] urls @ logged sc cs (handle c urls)"
  by (cases c) simp_all

lemma run_logged:
  assumes "urls sc = Some e"
  shows "\<exists>e'. run cs urls sc = Some e' \<and> entry_url e' = entry_url e
           \<and> entry_expiry e' = entry_expiry e
           \<and> entry_clicks e' = entry_clicks e @ logged sc cs urls"
  using assms
proof (induction cs arbitrary: urls e)
  case Nil
  then show ?case by simp
next
  case (Cons c cs)
  from handle_logged [where urls = urls and sc = sc and c = c, OF Cons.prems] obtain e1 where
    e1: "handle c urls sc = Some e1" "entry_url e1 = entry_url e"
      "entry_expiry e1 = entry_expiry e"
      "entry_clicks e1 = entry_clicks e @ logged sc [c] urls"
    by blast
  from Cons.IH [where urls = "handle c urls", OF e1(1)] obtain e' where
    "run cs (handle c urls) sc = Some e'" "entry_url e' = entry_url e1"
      "entry_expiry e' = entry_expiry e1"
      "entry_clicks e' = entry_clicks e1 @ logged sc cs (handle c urls)"
    by blast
  with e1 show ?case
    by (simp add: logged_Cons [of sc c cs])
qed

lemma handle_absent_logged:
  assumes "urls sc = None"
  shows "logged sc [c] urls = []"
    and "handle c urls sc = Some e \<Longrightarrow> entry_clicks e = []"
proof -
  show "logged sc [c] urls = []"
    using assms by (cases c) (auto simp add: redirect_not_found)
  show "handle c urls sc = Some e \<Longrightarrow> entry_clicks e = []"
    using assms by (cases c) (auto simp add: redirect_absent dest: create_new_entry)
qed

lemma run_logged_fresh:
  assumes "urls sc = None" "run cs urls sc = Some e"
  shows "entry_clicks e = logged sc cs urls"
  using assms
proof (induction cs arbitrary: urls)
  case Nil
  then show ?case by simp
next
  case (Cons c cs)
  show ?case
  proof (cases "handle c urls sc")
    case None
    with Cons show ?thesis
      by (simp add: logged_Cons [of sc c cs] handle_absent_logged(1))
  next
    case (Some e1)
    with Cons.prems(1) have "entry_clicks e1 = []"
      by (simp add: handle_absent_logged(2))
    moreover from run_logged [where urls = "handle c urls" and sc = sc and cs = cs, OF Some] Cons.prems(2)
    have "entry_clicks e = entry_clicks e1 @ logged sc cs (handle c urls)"
      by auto
    ultimately show ?thesis
      using Cons.prems(1) by (simp add: logged_Cons [of sc c cs] handle_absent_logged(1))
  qed
qed

lemma length_logged: "length (logged sc cs urls) = resolves sc cs urls"
  by (induction sc cs urls rule: logged.induct) simp_all


lemma generate_sample: "generate_shortcode sample_rnd 5 = ''abcde''"
  by code_simp

lemma alphabet_eq:
  "ascii_letters @ digits = ''abcdefghijklmnopqrstuvwxyzABCDEFGHIJKLMNOPQRSTUVWXYZ0123456789''"
  by (simp add: ascii_letters_def ascii_lowercase_def ascii_uppercase_def digits_def)

lemma length_alphabet: "length (ascii_letters @ digits) = 62"
  by (simp add: alphabet_eq)

lemma length_generate: "length (generate_shortcode rnd k) = k"
  by (simp add: generate_shortcode_def choices_def)

lemma generate_nonempty: "generate_shortcode rnd 5 \<noteq> []"
proof
  assume "generate_shortcode rnd 5 = []"
  then have "length (generate_shortcode rnd 5) = 0" by simp
  then show False by (simp add: length_generate)
qed

lemma set_generate: "set (generate_shortcode rnd k) \<subseteq> set (ascii_letters @ digits)"
proof
  fix c assume "c \<in> set (generate_shortcode rnd k)"
  then obtain i where "c = (ascii_letters @ digits) ! (rnd i mod length (ascii_letters @ digits))"
    by (auto simp add: generate_shortcode_def choices_def)
  moreover have "0 < length (ascii_letters @ digits)"
    unfolding length_alphabet by simp
  then have "rnd i mod length (ascii_letters @ digits) < length (ascii_letters @ digits)"
    by (rule mod_less_divisor)
  ultimately show "c \<in> set (ascii_letters @ digits)"
    by (simp only: nth_mem)
qed

lemma shortcode_or_nonempty: "shortcode_or given (generate_shortcode rnd 5) \<noteq> []"
  by (simp add: shortcode_or_def generate_nonempty split: option.splits)

lemma handle_keeps_empty_absent:
  assumes "urls [] = None"
  shows "handle c urls [] = None"
proof (cases c)
  case (Create rnd now data request)
  with assms shortcode_or_nonempty [of "req_shortcode data" rnd] show ?thesis
    by (auto simp add: create_short_url_def Let_def split: sum.splits)
next
  case (Resolve now now' k request)
  with assms show ?thesis by (simp add: redirect_absent)
next
  case (GetStats k)
  with assms show ?thesis by simp
qed

lemma run_keeps_empty_absent: "urls [] = None \<Longrightarrow> run cs urls [] = None"
  by (induction cs arbitrary: urls) (simp_all add: handle_keeps_empty_absent)

lemma create_cong:
  assumes "shortcode_or (req_shortcode d1) (generate_shortcode rnd 5)
             = shortcode_or (req_shortcode d2) (generate_shortcode rnd 5)"
    and "req_validity d1 = req_validity d2" and "req_url d1 = req_url d2"
  shows "create_short_url rnd now d1 request urls = create_short_url rnd now d2 request urls"
  by (simp only: create_short_url_def assms)

lemma year_bound:
  fixes n q400 r400 q100 r100 q4 r4 q1 r1 :: int
  assumes n: "0 \<le> n" "n \<le> 3652058"
    and d400: "n = 146097 * q400 + r400" "0 \<le> r400" "r400 < 146097"
    and d100: "r400 = 36524 * q100 + r100" "0 \<le> r100" "r100 < 36524"
    and d4: "r100 = 1461 * q4 + r4" "0 \<le> r4" "r4 < 1461"
    and d1: "r4 = 365 * q1 + r1" "0 \<le> r1" "r1 < 365"
  shows "0 \<le> q400 \<and> 0 \<le> q100 \<and> 0 \<le> q4 \<and> 0 \<le> q1
         \<and> 400 * q400 + 100 * q100 + 4 * q4 + q1 \<le> 9998"
proof -
  have q400: "0 \<le> q400" "q400 \<le> 24" using n d400 by linarith+
  have q100: "0 \<le> q100" "q100 \<le> 4" using d400 d100 by linarith+
  have q4: "0 \<le> q4" "q4 \<le> 24" using d100 d4 by linarith+
  have q1: "0 \<le> q1" "q1 \<le> 4" using d4 d1 by linarith+
  have "400 * q400 + 100 * q100 + 4 * q4 + q1 \<le> 9998"
  proof (cases "q400 \<le> 23")
    case True
    with q100 q4 q1 show ?thesis by linarith
  next
    case False
    with q400 have a: "q400 = 24" by linarith
    with n d400 have r: "r400 \<le> 145730" by linarith
    with d100 have b: "q100 \<le> 3" by linarith
    show ?thesis
    proof (cases "q100 \<le> 2")
      case True
      with a q4 q1 show ?thesis by linarith
    next
      case False
      with b have b3: "q100 = 3" by linarith
      with r d100 have r': "r100 \<le> 36158" by linarith
      show ?thesis
      proof (cases "q4 \<le> 23")
        case True
        with a b3 q1 show ?thesis by linarith
      next
        case False
        with q4 have c: "q4 = 24" by linarith
        with r' d4 have "r4 \<le> 1094" by linarith
        with d1 have "q1 \<le> 2" by linarith
        with a b3 c show ?thesis by linarith
      qed
    qed
  qed
  with q400 q100 q4 q1 show ?thesis by simp
qed

lemma month_day_table:
  "\<forall>n \<in> set [0..364]. \<forall>leapyear \<in> set [False, True].
     (let month = (n + 50) div 32;
          preceding = DAYS_BEFORE_MONTH ! nat month + of_bool_int (month > 2 \<and> leapyear)
      in if preceding > n
         then 1 \<le> month - 1 \<and> month - 1 \<le> 12
              \<and> 1 \<le> n - (preceding - (DAYS_IN_MONTH ! nat (month - 1)
                           + of_bool_int (month - 1 = 2 \<and> leapyear))) + 1
              \<and> n - (preceding - (DAYS_IN_MONTH ! nat (month - 1)
                           + of_bool_int (month - 1 = 2 \<and> leapyear))) + 1 \<le> 31
         else 1 \<le> month \<and> month \<le> 12 \<and> 1 \<le> n - preceding + 1 \<and> n - preceding + 1 \<le> 31)"
  by code_simp

lemma ord2ymd_range:
  assumes "1 \<le> n" "n \<le> max_ordinal"
  shows "case ord2ymd n of (y, m, d) \<Rightarrow>
           1 \<le> y \<and> y \<le> 9999 \<and> 1 \<le> m \<and> m \<le> 12 \<and> 1 \<le> d \<and> d \<le> 31"
proof -
  define q400 where "q400 = (n - 1) div 146097"
  define r400 where "r400 = (n - 1) mod 146097"
  define q100 where "q100 = r400 div 36524"
  define r100 where "r100 = r400 mod 36524"
  define q4 where "q4 = r100 div 1461"
  define r4 where "r4 = r100 mod 1461"
  define q1 where "q1 = r4 div 365"
  define r1 where "r1 = r4 mod 365"
  define leapyear where "leapyear = (q1 = 3 \<and> (q4 \<noteq> 24 \<or> q100 = 3))"
  define year where "year = q400 * 400 + 1 + q100 * 100 + q4 * 4 + q1"
  from assms have n: "0 \<le> n - 1" "n - 1 \<le> 3652058" by (simp_all add: max_ordinal_def)
  have d400: "n - 1 = 146097 * q400 + r400" "0 \<le> r400" "r400 < 146097"
    by (simp_all add: q400_def r400_def)
  have d100: "r400 = 36524 * q100 + r100" "0 \<le> r100" "r100 < 36524"
    by (simp_all add: q100_def r100_def)
  have d4: "r100 = 1461 * q4 + r4" "0 \<le> r4" "r4 < 1461"
    by (simp_all add: q4_def r4_def)
  have d1: "r4 = 365 * q1 + r1" "0 \<le> r1" "r1 < 365"
    by (simp_all add: q1_def r1_def)
  from year_bound [OF n d400 d100 d4 d1]
  have year: "1 \<le> year" "year \<le> 9999" "q1 = 4 \<or> q100 = 4 \<Longrightarrow> 2 \<le> year"
    unfolding year_def by linarith+
  have r1: "r1 \<in> set [0..364]" using d1 by simp
  have leap: "leapyear \<in> set [False, True]" by auto
  have unfold: "ord2ymd n =
      (if q1 = 4 \<or> q100 = 4 then (year - 1, 12, 31)
       else
        (let month = (r1 + 50) div 32;
             preceding = DAYS_BEFORE_MONTH ! nat month + of_bool_int (month > 2 \<and> leapyear)
         in if preceding > r1
            then (year, month - 1,
                  r1 - (preceding - (DAYS_IN_MONTH ! nat (month - 1)
                        + of_bool_int (month - 1 = 2 \<and> leapyear))) + 1)
            else (year, month, r1 - preceding + 1)))"
    unfolding ord2ymd_def Let_def DI400Y_def DI100Y_def DI4Y_def
      year_def leapyear_def r1_def q1_def r4_def q4_def r100_def q100_def r400_def q400_def
    by (rule refl)
  show ?thesis
  proof (cases "q1 = 4 \<or> q100 = 4")
    case True
    with year show ?thesis unfolding unfold by simp
  next
    case False
    from month_day_table [rule_format, OF r1 leap] year(1,2) False show ?thesis
      unfolding unfold Let_def by (simp split: if_splits)
  qed
qed

lemma digit_char_is_digit: "d < 10 \<Longrightarrow> is_digit (digit_char d)"
  unfolding is_digit_def digit_char_def by (rule nth_mem) simp

lemma dec_digits: "c \<in> set (dec n) \<Longrightarrow> is_digit c"
proof (induction n rule: dec.induct)
  case (1 n)
  then show ?case
    by (subst (asm) dec.simps) (auto simp add: digit_char_is_digit split: if_splits)
qed

lemma length_dec: "0 < k \<Longrightarrow> n < 10 ^ k \<Longrightarrow> length (dec n) \<le> k"
proof (induction n arbitrary: k rule: dec.induct)
  case (1 n)
  show ?case
  proof (cases "n < 10")
    case True
    with "1.prems" show ?thesis by (subst dec.simps) simp
  next
    case False
    from "1.prems" obtain j where j: "k = Suc j" by (cases k) auto
    with "1.prems" False have "0 < j" by (cases j) auto
    note k = j this
    with "1.prems" have "n div 10 < 10 ^ j"
      by (simp add: less_mult_imp_div_less mult.commute)
    with "1.IH" [OF False \<open>0 < j\<close>] have "length (dec (n div 10)) \<le> j" by simp
    with False k show ?thesis by (subst dec.simps) simp
  qed
qed

lemma zfill_digits:
  assumes "0 < w" "0 \<le> n" "n < 10 ^ w"
  shows "length (zfill w n) = w \<and> (\<forall>c \<in> set (zfill w n). is_digit c)"
proof -
  from assms have "nat n < 10 ^ w"
    by (simp add: nat_less_iff)
  with assms(1) have "length (dec (nat n)) \<le> w" by (rule length_dec)
  then have "length (zfill w n) = w" by (simp add: zfill_def)
  moreover have "\<forall>c \<in> set (zfill w n). is_digit c"
    by (auto simp add: zfill_def is_digit_def dest: dec_digits)
  ultimately show ?thesis by simp
qed

lemma matches_digits:
  assumes "length s = k \<and> (\<forall>c \<in> set s. is_digit c)"
  shows "matches (replicate k (CHR ''d'') @ p) (s @ rest) = matches p rest"
  using assms by (induction s arbitrary: k) auto

lemma pattern_seconds:
  "''dddd-dd-ddTdd:dd:dd'' =
     replicate 4 (CHR ''d'') @ ''-'' @ replicate 2 (CHR ''d'') @ ''-'' @ replicate 2 (CHR ''d'')
     @ ''T'' @ replicate 2 (CHR ''d'') @ '':'' @ replicate 2 (CHR ''d'') @ '':''
     @ replicate 2 (CHR ''d'') @ []"
  by (simp add: numeral_eq_Suc)

lemma pattern_microseconds:
  "''dddd-dd-ddTdd:dd:dd.dddddd'' =
     replicate 4 (CHR ''d'') @ ''-'' @ replicate 2 (CHR ''d'') @ ''-'' @ replicate 2 (CHR ''d'')
     @ ''T'' @ replicate 2 (CHR ''d'') @ '':'' @ replicate 2 (CHR ''d'') @ '':''
     @ replicate 2 (CHR ''d'') @ ''.'' @ replicate 6 (CHR ''d'') @ []"
  by (simp add: numeral_eq_Suc)

lemma isoformat_form:
  assumes "valid_datetime t"
  shows "iso8601_form (isoformat t)"
proof -
  define r where "r = t mod us_per_day"
  define hour where "hour = r div 3600000000"
  define minute where "minute = (r div 60000000) mod 60"
  define second where "second = (r div 1000000) mod 60"
  define us where "us = r mod 1000000"
  obtain y m d where ymd: "ord2ymd (t div us_per_day + 1) = (y, m, d)"
    by (cases "ord2ymd (t div us_per_day + 1)")
  from assms have "0 \<le> t" "t < max_ordinal * us_per_day"
    by (simp_all add: valid_datetime_def datetime_max_def)
  then have "1 \<le> t div us_per_day + 1" "t div us_per_day + 1 \<le> max_ordinal"
    by (simp_all add: us_per_day_def pos_imp_zdiv_nonneg_iff div_less_iff_less_mult)
  from ord2ymd_range [OF this] ymd
  have range: "0 \<le> y" "y < 10 ^ 4" "0 \<le> m" "m < 10 ^ 2" "0 \<le> d" "d < 10 ^ 2"
    by simp_all
  have r: "0 \<le> r" "r < 86400000000"
    by (simp_all add: r_def us_per_day_def)
  then have hour: "0 \<le> hour" "hour < 10 ^ 2"
    by (simp_all add: hour_def pos_imp_zdiv_nonneg_iff div_less_iff_less_mult)
  have rest: "0 \<le> minute" "minute < 10 ^ 2" "0 \<le> second" "second < 10 ^ 2"
    "0 \<le> us" "us < 10 ^ 6"
    by (simp_all add: minute_def second_def us_def)
  have z: "length (zfill 4 y) = 4 \<and> (\<forall>c \<in> set (zfill 4 y). is_digit c)"
    "length (zfill 2 m) = 2 \<and> (\<forall>c \<in> set (zfill 2 m). is_digit c)"
    "length (zfill 2 d) = 2 \<and> (\<forall>c \<in> set (zfill 2 d). is_digit c)"
    "length (zfill 2 hour) = 2 \<and> (\<forall>c \<in> set (zfill 2 hour). is_digit c)"
    "length (zfill 2 minute) = 2 \<and> (\<forall>c \<in> set (zfill 2 minute). is_digit c)"
    "length (zfill 2 second) = 2 \<and> (\<forall>c \<in> set (zfill 2 second). is_digit c)"
    "length (zfill 6 us) = 6 \<and> (\<forall>c \<in> set (zfill 6 us). is_digit c)"
    by (rule zfill_digits [OF _ range(1,2)] zfill_digits [OF _ range(3,4)]
        zfill_digits [OF _ range(5,6)] zfill_digits [OF _ hour]
        zfill_digits [OF _ rest(1,2)] zfill_digits [OF _ rest(3,4)]
        zfill_digits [OF _ rest(5,6)], simp)+
  have iso: "isoformat t =
      zfill 4 y @ ''-'' @ zfill 2 m @ ''-'' @ zfill 2 d @ ''T''
      @ zfill 2 hour @ '':'' @ zfill 2 minute @ '':'' @ zfill 2 second
      @ (if us \<noteq> 0 then ''.'' @ zfill 6 us @ [] else [])"
    by (simp add: isoformat_def Let_def ymd r_def hour_def minute_def second_def us_def)
  show ?thesis
  proof (cases "us = 0")
    case True
    have "matches ''dddd-dd-ddTdd:dd:dd'' (isoformat t)"
      unfolding iso pattern_seconds using True
      by (simp only: matches_digits [OF z(1)] matches_digits [OF z(2)] matches_digits [OF z(3)]
          matches_digits [OF z(4)] matches_digits [OF z(5)] matches_digits [OF z(6)]
          append_Cons append_Nil matches.simps if_False if_True simp_thms char.inject
          not_True_eq_False)
    then show ?thesis by (simp add: iso8601_form_def)
  next
    case False
    have "matches ''dddd-dd-ddTdd:dd:dd.dddddd'' (isoformat t)"
      unfolding iso pattern_microseconds using False
      by (simp only: matches_digits [OF z(1)] matches_digits [OF z(2)] matches_digits [OF z(3)]
          matches_digits [OF z(4)] matches_digits [OF z(5)] matches_digits [OF z(6)]
          matches_digits [OF z(7)]
          append_Cons append_Nil matches.simps if_False if_True simp_thms char.inject
          not_True_eq_False)
    then show ?thesis by (simp add: iso8601_form_def)
  qed
qed

lemma isoformat_samples:
  "isoformat 63849515400000000 = ''2024-04-24T00:30:00''"
  "isoformat 63849513540000000 = ''2024-04-23T23:59:00''"
  by code_simp+

lemma handle_valid_expiry:
  assumes inv: "\<And>k e. urls k = Some e \<Longrightarrow> valid_datetime (entry_expiry e)"
    and k: "handle c urls k = Some e"
  shows "valid_datetime (entry_expiry e)"
proof (cases "urls k")
  case (Some e0)
  from handle_logged [where urls = urls and sc = k and c = c, OF Some] k
  have "entry_expiry e = entry_expiry e0" by auto
  with inv [OF Some] show ?thesis by simp
next
  case None
  show ?thesis
  proof (cases c)
    case (Create rnd now data request)
    obtain r urls' where res: "create_short_url rnd now data request urls = (r, urls')"
      by (cases "create_short_url rnd now data request urls")
    show ?thesis
    proof (cases r)
      case (Inl err)
      with res create_failure [of rnd now data request urls err] have "urls' = urls" by simp
      with res Create k None show ?thesis by simp
    next
      case (Inr resp)
      with res have ok: "create_short_url rnd now data request urls = (Inr resp, urls')"
        by simp
      from create_success(2,4) [OF ok] res Create k None show ?thesis
        by (auto split: if_splits)
    qed
  next
    case (Resolve now now' sc request)
    with k None show ?thesis by (simp add: redirect_absent)
  next
    case (GetStats sc)
    with k None show ?thesis by simp
  qed
qed

lemma run_valid_expiry:
  assumes "\<And>k e. urls k = Some e \<Longrightarrow> valid_datetime (entry_expiry e)"
    and "run cs urls k = Some e"
  shows "valid_datetime (entry_expiry e)"
  using assms
proof (induction cs arbitrary: urls)
  case Nil
  then show ?case by simp
next
  case (Cons c cs)
  show ?case
  proof (rule Cons.IH [where urls = "handle c urls"])
    fix k' e' assume "handle c urls k' = Some e'"
    with Cons.prems(1) show "valid_datetime (entry_expiry e')"
      by (rule handle_valid_expiry)
  next
    from Cons.prems(2) show "run cs (handle c urls) k = Some e" by simp
  qed
qed

lemma timedelta_days: "(v * 60) div 86400 = v div (1440::int)"
  using div_mult_mult2 [of "60::int" v 1440] by simp

lemma create_accepts:
  assumes "urls (shortcode_or (req_shortcode data) (generate_shortcode rnd 5)) = None"
  shows "create_short_url rnd now data request urls =
     (if \<bar>req_validity data div 1440\<bar> \<le> 999999999
          \<and> valid_datetime (now + req_validity data * us_per_minute)
      then (Inr \<lparr>shortLink = rstrip_slash (base_url request) @ ''/''
                    @ shortcode_or (req_shortcode data) (generate_shortcode rnd 5),
                  expiry = isoformat (now + req_validity data * us_per_minute)\<rparr>,
            urls(shortcode_or (req_shortcode data) (generate_shortcode rnd 5) \<mapsto>
              \<lparr>entry_url = req_url data,
               entry_expiry = now + req_validity data * us_per_minute,
               entry_clicks = []\<rparr>))
      else (Inl OverflowError, urls))"
  using assms
  by (simp add: create_short_url_def Let_def timedelta_minutes_def datetime_add_def
      timedelta_days)

subsection \<open>Duplicate shortcodes\<close>

text \<open>
  Claim C1. Whatever the registry and the request, when the shortcode the request
  resolves to (the one supplied, or the generated one when none or the empty one is
  supplied) is a key of the registry, \<open>create_short_url\<close> raises
  \<^verbatim>\<open>HTTPException(400, "Shortcode already exists")\<close> and the registry after the
  call is the registry before it: the stored entry keeps its url, expiry and clicks and
  no key is added.
\<close>

theorem create_duplicate_rejected:
  assumes "urls (shortcode_or (req_shortcode data) (generate_shortcode rnd 5)) = Some e"
  shows "create_short_url rnd now data request urls
           = (Inl (HTTPException 400 ''Shortcode already exists''), urls)"
  using assms by (simp add: create_short_url_def)

theorem create_duplicate_rejected_witness:
  "sample_registry
     (shortcode_or (req_shortcode (UrlRequest_of_body ''https://b.com'' None (Some ''dup'')))
        (generate_shortcode sample_rnd 5))
     = Some \<lparr>entry_url = ''https://a.com'', entry_expiry = 63849515400000000,
              entry_clicks = []\<rparr>
   \<and> create_short_url sample_rnd (sample_now + 5)
         (UrlRequest_of_body ''https://b.com'' None (Some ''dup'')) sample_request sample_registry
     = (Inl (HTTPException 400 ''Shortcode already exists''), sample_registry)"
proof -
  have h: "sample_registry
     (shortcode_or (req_shortcode (UrlRequest_of_body ''https://b.com'' None (Some ''dup'')))
        (generate_shortcode sample_rnd 5))
     = Some \<lparr>entry_url = ''https://a.com'', entry_expiry = 63849515400000000,
              entry_clicks = []\<rparr>"
    by (simp add: sample_registry_eq shortcode_or_def UrlRequest_of_body_def)
  from create_duplicate_rejected [where urls = sample_registry and rnd = sample_rnd, OF h] h
  show ?thesis by simp
qed

subsection \<open>Resolving a live link\<close>



subsection \<open>Resolving an unknown or an expired link\<close>

text \<open>
  Claim C3. \<open>redirect_url\<close> of a shortcode that is not a key raises
  \<^verbatim>\<open>HTTPException(404)\<close>. Of a key whose expiry is strictly before the clock reading it
  raises \<^verbatim>\<open>HTTPException(410)\<close>, a different error, and the registry is returned as it
  was: no click is appended and the entry stays. After any further requests \<open>cs\<close> the
  shortcode is still a key, and every \<open>redirect_url\<close> of it at a clock reading \<open>t\<close> not
  earlier than the first one raises 410 again and changes nothing.
\<close>

theorem redirect_fails:
  "(urls sc = None \<longrightarrow>
      redirect_url now now' sc request urls
        = (Inl (HTTPException 404 ''Shortcode not found''), urls))
   \<and> (urls sc = Some e \<and> entry_expiry e < now \<longrightarrow>
        redirect_url now now' sc request urls = (Inl (HTTPException 410 ''Link expired''), urls)
        \<and> HTTPException 410 ''Link expired'' \<noteq> HTTPException 404 ''Shortcode not found''
        \<and> (now \<le> t \<longrightarrow>
             redirect_url t t' sc request' (run cs urls)
               = (Inl (HTTPException 410 ''Link expired''), run cs urls)
             \<and> run cs urls sc \<noteq> None))"
proof (intro conjI impI; (elim conjE)?)
  assume "urls sc = None"
  then show "redirect_url now now' sc request urls
        = (Inl (HTTPException 404 ''Shortcode not found''), urls)"
    by (rule redirect_not_found)
next
  assume e: "urls sc = Some e" and late: "entry_expiry e < now"
  then show "redirect_url now now' sc request urls
      = (Inl (HTTPException 410 ''Link expired''), urls)"
    by (rule redirect_expired)
  show "HTTPException 410 ''Link expired'' \<noteq> HTTPException 404 ''Shortcode not found''"
    by simp
  assume later: "now \<le> t"
  from run_logged [where urls = urls and sc = sc and cs = cs, OF e]
  obtain e' where e': "run cs urls sc = Some e'" "entry_expiry e' = entry_expiry e"
    by blast
  with late later have "entry_expiry e' < t" by simp
  with e'(1) show "redirect_url t t' sc request' (run cs urls)
               = (Inl (HTTPException 410 ''Link expired''), run cs urls)"
    by (rule redirect_expired)
  from e'(1) show "run cs urls sc \<noteq> None" by simp
qed

text \<open>An instance on the sample data.\<close>

theorem redirect_fails_witness:
  "sample_registry ''nope'' = None
   \<and> redirect_url sample_now sample_now ''nope'' sample_request sample_registry
       = (Inl (HTTPException 404 ''Shortcode not found''), sample_registry)
   \<and> sample_registry ''dup''
       = Some \<lparr>entry_url = ''https://a.com'', entry_expiry = 63849515400000000,
                entry_clicks = []\<rparr>
   \<and> 63849515400000000 < sample_late
   \<and> redirect_url sample_late sample_late ''dup'' sample_request sample_registry
       = (Inl (HTTPException 410 ''Link expired''), sample_registry)
   \<and> sample_late \<le> sample_late + 5
   \<and> redirect_url (sample_late + 5) (sample_late + 6) ''dup'' sample_request
         (run [GetStats ''dup'', Resolve sample_now sample_now ''dup'' sample_request]
            sample_registry)
       = (Inl (HTTPException 410 ''Link expired''),
          run [GetStats ''dup'', Resolve sample_now sample_now ''dup'' sample_request]
            sample_registry)"
proof -
  let ?e = "\<lparr>entry_url = ''https://a.com'', entry_expiry = 63849515400000000,
              entry_clicks = []\<rparr>"
  have h: "sample_registry ''nope'' = None" "sample_registry ''dup'' = Some ?e"
    by (simp_all add: sample_registry_eq)
  have t: "63849515400000000 < sample_late"
    by (simp add: sample_late_def sample_now_def us_per_day_def us_per_minute_def)
  from redirect_fails [where urls = sample_registry and sc = "''nope''" and now = sample_now
      and now' = sample_now and request = sample_request]
    redirect_fails [where urls = sample_registry and sc = "''dup''" and e = ?e
      and now = sample_late and now' = sample_late and request = sample_request
      and t = "sample_late + 5" and t' = "sample_late + 6" and request' = sample_request
      and cs = "[GetStats ''dup'', Resolve sample_now sample_now ''dup'' sample_request]"]
    h t
  show ?thesis by (simp del: run.simps)
qed

subsection \<open>Statistics\<close>

text \<open>
  Claim C4. \<open>stats\<close> of a shortcode that is not a key raises \<^verbatim>\<open>HTTPException(404)\<close>.
  Of a key it returns the stored url, the expiry in ISO form, the length of the click log
  and the log itself, in the order of appending. It takes no clock reading, so the answer
  does not depend on whether the link has expired. In a process started with the empty
  registry, after any sequence of requests, \<open>total_clicks\<close> is the number of
  \<open>redirect_url\<close> calls of that shortcode that returned normally, \<open>click_data\<close> holds
  their clicks in request order, and the expiry returned has the ISO-8601 shape.
\<close>

theorem stats_result:
  "(urls sc = None \<longrightarrow> stats sc urls = Inl (HTTPException 404 ''Shortcode not found''))
   \<and> (urls sc = Some e \<longrightarrow>
        stats sc urls = Inr \<lparr>stats_url = entry_url e,
                             stats_expiry = isoformat (entry_expiry e),
                             total_clicks = length (entry_clicks e),
                             click_data = entry_clicks e\<rparr>)
   \<and> (stats sc (run cs Map.empty) = Inr r \<longrightarrow>
        total_clicks r = resolves sc cs Map.empty
        \<and> click_data r = logged sc cs Map.empty
        \<and> iso8601_form (stats_expiry r))"
proof (intro conjI impI)
  assume "stats sc (run cs Map.empty) = Inr r"
  then obtain e where e: "run cs Map.empty sc = Some e"
    "total_clicks r = length (entry_clicks e)" "click_data r = entry_clicks e"
    "stats_expiry r = isoformat (entry_expiry e)"
    by (auto simp add: stats_def split: option.splits)
  from run_logged_fresh [where urls = Map.empty and sc = sc and cs = cs and e = e] e(1)
  have "entry_clicks e = logged sc cs Map.empty" by simp
  with e show "total_clicks r = resolves sc cs Map.empty"
    and "click_data r = logged sc cs Map.empty"
    by (simp_all add: length_logged)
  from run_valid_expiry [where urls = Map.empty and cs = cs and k = sc and e = e] e(1)
  have "valid_datetime (entry_expiry e)" by simp
  with e(4) show "iso8601_form (stats_expiry r)"
    by (simp add: isoformat_form)
qed (simp_all add: stats_def)

text \<open>An instance on the sample data.\<close>

theorem stats_result_witness:
  "sample_registry ''nope'' = None
   \<and> stats ''nope'' sample_registry = Inl (HTTPException 404 ''Shortcode not found'')
   \<and> stats ''dup'' sample_registry
       = Inr \<lparr>stats_url = ''https://a.com'', stats_expiry = isoformat 63849515400000000,
              total_clicks = 0, click_data = []\<rparr>
   \<and> stats ''abcde''
         (run [Create sample_rnd sample_now
                 (UrlRequest_of_body ''https://example.com'' (Some 30) None) sample_request,
               GetStats ''abcde'',
               Resolve (sample_now + 1) (sample_now + 2) ''abcde'' sample_request,
               Resolve sample_late sample_late ''abcde'' sample_request] Map.empty)
       = Inr \<lparr>stats_url = ''https://example.com'',
              stats_expiry = isoformat 63849515400000000,
              total_clicks = 1,
              click_data = [\<lparr>timestamp = isoformat (sample_now + 2),
                             referrer = ''https://ref.example/'', ip = ''127.0.0.1''\<rparr>]\<rparr>
   \<and> resolves ''abcde''
         [Create sample_rnd sample_now
            (UrlRequest_of_body ''https://example.com'' (Some 30) None) sample_request,
          GetStats ''abcde'',
          Resolve (sample_now + 1) (sample_now + 2) ''abcde'' sample_request,
          Resolve sample_late sample_late ''abcde'' sample_request] Map.empty = 1
   \<and> iso8601_form (isoformat 63849515400000000)
   \<and> isoformat 63849515400000000 = ''2024-04-24T00:30:00''"
proof -
  let ?e = "\<lparr>entry_url = ''https://a.com'', entry_expiry = 63849515400000000,
              entry_clicks = []\<rparr>"
  let ?cs = "[Create sample_rnd sample_now
                 (UrlRequest_of_body ''https://example.com'' (Some 30) None) sample_request,
               GetStats ''abcde'',
               Resolve (sample_now + 1) (sample_now + 2) ''abcde'' sample_request,
               Resolve sample_late sample_late ''abcde'' sample_request]"
  let ?r = "\<lparr>stats_url = ''https://example.com'',
              stats_expiry = isoformat 63849515400000000,
              total_clicks = 1,
              click_data = [\<lparr>timestamp = isoformat (sample_now + 2),
                             referrer = ''https://ref.example/'', ip = ''127.0.0.1''\<rparr>]\<rparr>"
  have h: "sample_registry ''nope'' = None" "sample_registry ''dup'' = Some ?e"
    by (simp_all add: sample_registry_eq)
  have s: "stats ''abcde'' (run ?cs Map.empty) = Inr ?r"
    by (simp add: create_eval generate_sample redirect_url_def stats_def sample_late_def
        sample_request_def headers_get_def)
  from stats_result [where urls = sample_registry and sc = "''nope''"]
    stats_result [where urls = sample_registry and sc = "''dup''" and e = ?e]
    stats_result [where sc = "''abcde''" and cs = ?cs and r = ?r]
    h s
  show ?thesis by (simp add: isoformat_samples del: run.simps resolves.simps)
qed

subsection \<open>Round trip\<close>



subsection \<open>The expiry of a new link\<close>

text \<open>
  Claim C6, as amended. A request body without \<^verbatim>\<open>validity\<close> has validity 30. When
  \<open>create_short_url\<close> returns normally, the entry it inserts has the request's url, the
  expiry \<open>now\<close> plus the validity in minutes and an empty click log, and the response carries
  that expiry printed by \<open>isoformat\<close>, which has the ISO-8601 shape
  \<^verbatim>\<open>YYYY-MM-DDTHH:MM:SS\<close> or \<^verbatim>\<open>YYYY-MM-DDTHH:MM:SS.ffffff\<close>. The handler compares the
  validity with no bound of its own, so zero and negative values pass: the link of a
  validity \<open>\<le> 0\<close> raises 410 at every later clock reading, and the link of a negative one
  already at the reading of its creation. What bounds the validity is the datetime
  arithmetic: for a free shortcode the call succeeds exactly when the days of the
  \<^verbatim>\<open>timedelta\<close> are at most 999999999 in magnitude and the expiry is a datetime of the
  years 1 to 9999; otherwise it raises \<^verbatim>\<open>OverflowError\<close> and the registry is unchanged.
\<close>

theorem create_expiry:
  "req_validity (UrlRequest_of_body u None s) = 30
   \<and> (create_short_url rnd now data request urls = (Inr resp, urls') \<longrightarrow>
        urls' = urls(shortcode_or (req_shortcode data) (generate_shortcode rnd 5) \<mapsto>
                  \<lparr>entry_url = req_url data,
                   entry_expiry = now + req_validity data * us_per_minute,
                   entry_clicks = []\<rparr>)
        \<and> expiry resp = isoformat (now + req_validity data * us_per_minute)
        \<and> iso8601_form (expiry resp)
        \<and> (req_validity data \<le> 0 \<and> now < t \<or> req_validity data < 0 \<and> now \<le> t \<longrightarrow>
             redirect_url t t' (shortcode_or (req_shortcode data) (generate_shortcode rnd 5))
                 request' urls'
               = (Inl (HTTPException 410 ''Link expired''), urls')))
   \<and> (urls (shortcode_or (req_shortcode data) (generate_shortcode rnd 5)) = None \<longrightarrow>
        (if \<bar>req_validity data div 1440\<bar> \<le> 999999999
            \<and> valid_datetime (now + req_validity data * us_per_minute)
         then \<exists>resp urls'. create_short_url rnd now data request urls = (Inr resp, urls')
         else create_short_url rnd now data request urls = (Inl OverflowError, urls)))"
proof (intro conjI impI)
  show "req_validity (UrlRequest_of_body u None s) = 30"
    by (simp add: UrlRequest_of_body_def)
next
  assume "urls (shortcode_or (req_shortcode data) (generate_shortcode rnd 5)) = None"
  then show "if \<bar>req_validity data div 1440\<bar> \<le> 999999999
            \<and> valid_datetime (now + req_validity data * us_per_minute)
         then \<exists>resp urls'. create_short_url rnd now data request urls = (Inr resp, urls')
         else create_short_url rnd now data request urls = (Inl OverflowError, urls)"
    by (simp add: create_accepts)
next
  let ?sc = "shortcode_or (req_shortcode data) (generate_shortcode rnd 5)"
  let ?e = "\<lparr>entry_url = req_url data,
            entry_expiry = now + req_validity data * us_per_minute,
            entry_clicks = []\<rparr>"
  assume ok: "create_short_url rnd now data request urls = (Inr resp, urls')"
  from create_success(2) [OF ok] show urls': "urls' = urls(?sc \<mapsto> ?e)" .
  from create_success(3) [OF ok]
  show iso: "expiry resp = isoformat (now + req_validity data * us_per_minute)" by simp
  from create_success(4) [OF ok] iso show "iso8601_form (expiry resp)"
    by (simp add: isoformat_form)
  assume "req_validity data \<le> 0 \<and> now < t \<or> req_validity data < 0 \<and> now \<le> t"
  then have "now + req_validity data * us_per_minute < t"
  proof
    assume "req_validity data \<le> 0 \<and> now < t"
    then have "req_validity data * us_per_minute \<le> 0" "now < t"
      by (simp_all add: us_per_minute_def)
    then show ?thesis by linarith
  next
    assume "req_validity data < 0 \<and> now \<le> t"
    then have "req_validity data * us_per_minute < 0" "now \<le> t"
      by (simp_all add: us_per_minute_def)
    then show ?thesis by linarith
  qed
  moreover from urls' have "urls' ?sc = Some ?e" by simp
  ultimately show "redirect_url t t' ?sc request' urls'
      = (Inl (HTTPException 410 ''Link expired''), urls')"
    by (simp add: redirect_expired)
qed

text \<open>
  An instance: \<^verbatim>\<open>validity = -1\<close> on the empty registry. The link is created with the
  expiry \<^verbatim>\<open>2024-04-23T23:59:00\<close>, one minute before the clock reading, and a resolve at
  that same reading raises 410.
\<close>

theorem create_expiry_witness:
  "req_validity (UrlRequest_of_body ''https://a.com'' None None) = 30
   \<and> create_short_url sample_rnd sample_now
        (UrlRequest_of_body ''https://a.com'' (Some (- 1)) (Some ''old'')) sample_request Map.empty
       = (Inr \<lparr>shortLink = ''http://127.0.0.1:8000/old'', expiry = ''2024-04-23T23:59:00''\<rparr>,
          [''old'' \<mapsto> \<lparr>entry_url = ''https://a.com'', entry_expiry = 63849513540000000,
                         entry_clicks = []\<rparr>])
   \<and> iso8601_form ''2024-04-23T23:59:00''
   \<and> req_validity (UrlRequest_of_body ''https://a.com'' (Some (- 1)) (Some ''old'')) < 0
   \<and> sample_now \<le> sample_now
   \<and> redirect_url sample_now sample_now ''old'' sample_request
        [''old'' \<mapsto> \<lparr>entry_url = ''https://a.com'', entry_expiry = 63849513540000000,
                       entry_clicks = []\<rparr>]
       = (Inl (HTTPException 410 ''Link expired''),
          [''old'' \<mapsto> \<lparr>entry_url = ''https://a.com'', entry_expiry = 63849513540000000,
                         entry_clicks = []\<rparr>])
   \<and> Map.empty ''old'' = (None :: entry option)
   \<and> \<bar>req_validity (UrlRequest_of_body ''https://a.com'' (Some (- 1)) (Some ''old'')) div 1440\<bar>
       \<le> 999999999
   \<and> valid_datetime (sample_now
         + req_validity (UrlRequest_of_body ''https://a.com'' (Some (- 1)) (Some ''old''))
           * us_per_minute)"
proof -
  let ?data = "UrlRequest_of_body ''https://a.com'' (Some (- 1)) (Some ''old'')"
  let ?resp = "\<lparr>shortLink = ''http://127.0.0.1:8000/old'', expiry = ''2024-04-23T23:59:00''\<rparr>"
  let ?urls' = "[''old'' \<mapsto> \<lparr>entry_url = ''https://a.com'',
                   entry_expiry = 63849513540000000, entry_clicks = []\<rparr>]"
  have sc: "shortcode_or (req_shortcode ?data) (generate_shortcode sample_rnd 5) = ''old''"
    by (simp add: shortcode_or_def UrlRequest_of_body_def)
  have a: "create_short_url sample_rnd sample_now ?data sample_request Map.empty
             = (Inr ?resp, ?urls')"
    by (simp add: create_eval sample_request_def rstrip_slash_def isoformat_samples)
  have b: "req_validity ?data < 0" "sample_now \<le> sample_now"
    "\<bar>req_validity ?data div 1440\<bar> \<le> 999999999"
    "valid_datetime (sample_now + req_validity ?data * us_per_minute)"
    by (simp_all add: create_eval)
  note th = create_expiry [where rnd = sample_rnd and now = sample_now and data = ?data
      and request = sample_request and urls = Map.empty and resp = ?resp and urls' = ?urls'
      and t = sample_now and t' = sample_now and request' = sample_request
      and u = "''https://a.com''" and s = None]
  from th have c: "req_validity (UrlRequest_of_body ''https://a.com'' None None) = 30"
    by blast
  from th a have d: "iso8601_form (expiry ?resp)"
    by blast
  from th a b(1,2)
  have e: "redirect_url sample_now sample_now
             (shortcode_or (req_shortcode ?data) (generate_shortcode sample_rnd 5))
             sample_request ?urls'
           = (Inl (HTTPException 410 ''Link expired''), ?urls')"
    by blast
  from d have d': "iso8601_form ''2024-04-23T23:59:00''" by simp
  from e have e': "redirect_url sample_now sample_now ''old'' sample_request ?urls'
           = (Inl (HTTPException 410 ''Link expired''), ?urls')"
    by (simp only: sc)
  have f: "Map.empty ''old'' = (None :: entry option)" by simp
  show ?thesis by (intro conjI a b c d' e' f)
qed

text \<open>
  Claim C6 as stated fails where it says that the validity is accepted without any
  bound: a validity of 10000000000 minutes, some 19000 years, on the empty registry; the
  datetime addition raises \<^verbatim>\<open>OverflowError\<close> and nothing is inserted.
\<close>

theorem create_overflow:
  "create_short_url sample_rnd sample_now
     (UrlRequest_of_body ''https://a.com'' (Some 10000000000) (Some ''far''))
     sample_request Map.empty
   = (Inl OverflowError, Map.empty)"
  by (simp add: create_eval)

subsection \<open>Supplied shortcodes\<close>

text \<open>
  Claim C7, as amended. When the request supplies a non-empty shortcode, that string is
  the one looked up in the registry (a hit raises 400), the key stored on success and the
  tail of the returned \<open>shortLink\<close>. The claim as stated, for every supplied shortcode,
  fails for the empty string (the counterexample below): \<^verbatim>\<open>data.shortcode or
  generate_shortcode()\<close> takes the generated code then.
\<close>

theorem given_shortcode_verbatim:
  assumes "req_shortcode data = Some sc" "sc \<noteq> []"
  shows "shortcode_or (req_shortcode data) (generate_shortcode rnd 5) = sc
       \<and> (urls sc \<noteq> None \<longrightarrow>
            create_short_url rnd now data request urls
              = (Inl (HTTPException 400 ''Shortcode already exists''), urls))
       \<and> (create_short_url rnd now data request urls = (Inr resp, urls') \<longrightarrow>
            urls sc = None
            \<and> urls' = urls(sc \<mapsto> \<lparr>entry_url = req_url data,
                                   entry_expiry = now + req_validity data * us_per_minute,
                                   entry_clicks = []\<rparr>)
            \<and> shortLink resp = rstrip_slash (base_url request) @ ''/'' @ sc)"
proof -
  from assms have sc: "shortcode_or (req_shortcode data) (generate_shortcode rnd 5) = sc"
    by (simp add: shortcode_or_given)
  show ?thesis
  proof (intro conjI impI)
    show "shortcode_or (req_shortcode data) (generate_shortcode rnd 5) = sc" by (rule sc)
  next
    assume "urls sc \<noteq> None"
    with sc show "create_short_url rnd now data request urls
              = (Inl (HTTPException 400 ''Shortcode already exists''), urls)"
      by (simp add: create_short_url_def)
  next
    assume ok: "create_short_url rnd now data request urls = (Inr resp, urls')"
    from create_success(1) [OF ok] sc show "urls sc = None" by simp
    from create_success(2) [OF ok] sc
    show "urls' = urls(sc \<mapsto> \<lparr>entry_url = req_url data,
                                   entry_expiry = now + req_validity data * us_per_minute,
                                   entry_clicks = []\<rparr>)" by simp
    from create_success(3) [OF ok] sc
    show "shortLink resp = rstrip_slash (base_url request) @ ''/'' @ sc" by simp
  qed
qed

text \<open>An instance on the sample data.\<close>

theorem given_shortcode_verbatim_witness:
  "req_shortcode (UrlRequest_of_body ''https://a.com'' None (Some ''dup'')) = Some ''dup''
   \<and> ''dup'' \<noteq> []
   \<and> shortcode_or (req_shortcode (UrlRequest_of_body ''https://a.com'' None (Some ''dup'')))
         (generate_shortcode sample_rnd 5) = ''dup''
   \<and> sample_registry ''dup'' \<noteq> None
   \<and> create_short_url sample_rnd sample_now
         (UrlRequest_of_body ''https://a.com'' None (Some ''dup'')) sample_request sample_registry
       = (Inl (HTTPException 400 ''Shortcode already exists''), sample_registry)
   \<and> create_short_url sample_rnd sample_now
         (UrlRequest_of_body ''https://a.com'' None (Some ''dup'')) sample_request Map.empty
       = (Inr \<lparr>shortLink = ''http://127.0.0.1:8000/dup'',
                expiry = isoformat 63849515400000000\<rparr>,
          [''dup'' \<mapsto> \<lparr>entry_url = ''https://a.com'', entry_expiry = 63849515400000000,
                         entry_clicks = []\<rparr>])
   \<and> shortLink \<lparr>shortLink = ''http://127.0.0.1:8000/dup'',
                  expiry = isoformat 63849515400000000\<rparr>
       = rstrip_slash (base_url sample_request) @ ''/'' @ ''dup''"
proof -
  let ?data = "UrlRequest_of_body ''https://a.com'' None (Some ''dup'')"
  let ?resp = "\<lparr>shortLink = ''http://127.0.0.1:8000/dup'',
                expiry = isoformat 63849515400000000\<rparr>"
  let ?urls' = "[''dup'' \<mapsto> \<lparr>entry_url = ''https://a.com'',
                  entry_expiry = 63849515400000000, entry_clicks = []\<rparr>]"
  have a: "req_shortcode ?data = Some ''dup''" "''dup'' \<noteq> []"
    by (simp_all add: UrlRequest_of_body_def)
  have b: "sample_registry ''dup'' \<noteq> None"
    by (simp add: sample_registry_eq)
  have c: "create_short_url sample_rnd sample_now ?data sample_request Map.empty
             = (Inr ?resp, ?urls')"
    by (simp add: create_eval sample_request_def rstrip_slash_def)
  note th = given_shortcode_verbatim [where rnd = sample_rnd and now = sample_now
      and request = sample_request, OF a]
  from th [where urls = sample_registry]
  have d: "shortcode_or (req_shortcode ?data) (generate_shortcode sample_rnd 5) = ''dup''"
    by blast
  from th [where urls = sample_registry] b
  have e: "create_short_url sample_rnd sample_now ?data sample_request sample_registry
             = (Inl (HTTPException 400 ''Shortcode already exists''), sample_registry)"
    by blast
  from th [where urls = Map.empty and resp = ?resp and urls' = ?urls'] c
  have f: "shortLink ?resp = rstrip_slash (base_url sample_request) @ ''/'' @ ''dup''"
    by blast
  show ?thesis by (intro conjI a b c d e f)
qed

text \<open>
  Claim C7 as stated fails: a request that supplies the empty string as its shortcode is
  served under the generated code \<^verbatim>\<open>abcde\<close>, which is what the registry holds and the
  link ends in; the supplied string is no key.
\<close>

theorem empty_shortcode_not_verbatim:
  "req_shortcode (UrlRequest_of_body ''https://a.com'' None (Some [])) = Some []
   \<and> create_short_url sample_rnd sample_now
        (UrlRequest_of_body ''https://a.com'' None (Some [])) sample_request Map.empty
       = (Inr \<lparr>shortLink = ''http://127.0.0.1:8000/abcde'',
                expiry = isoformat 63849515400000000\<rparr>,
          [''abcde'' \<mapsto> \<lparr>entry_url = ''https://a.com'', entry_expiry = 63849515400000000,
                           entry_clicks = []\<rparr>])
   \<and> [''abcde'' \<mapsto> \<lparr>entry_url = ''https://a.com'', entry_expiry = 63849515400000000,
                       entry_clicks = []\<rparr>] [] = None
   \<and> ''http://127.0.0.1:8000/abcde'' \<noteq> rstrip_slash (base_url sample_request) @ ''/'' @ []"
  by (simp add: create_eval generate_sample sample_request_def rstrip_slash_def
      UrlRequest_of_body_def)

subsection \<open>Generated shortcodes\<close>

text \<open>
  Claim C8. The generated shortcode has exactly 5 characters, each from the alphabet
  \<^verbatim>\<open>a-z A-Z 0-9\<close> of 62 distinct symbols. With no shortcode in the request,
  \<open>create_short_url\<close> does exactly what it does for the generated code given explicitly:
  the one code drawn is checked, and when it is a key already the call raises the same
  \<^verbatim>\<open>HTTPException(400, "Shortcode already exists")\<close>; nothing is drawn again.
\<close>

theorem generated_shortcode:
  "length (generate_shortcode rnd 5) = 5
   \<and> set (generate_shortcode rnd 5) \<subseteq> set (ascii_letters @ digits)
   \<and> ascii_letters @ digits
       = ''abcdefghijklmnopqrstuvwxyzABCDEFGHIJKLMNOPQRSTUVWXYZ0123456789''
   \<and> length (ascii_letters @ digits) = 62
   \<and> distinct (ascii_letters @ digits)
   \<and> (req_shortcode data = None \<longrightarrow>
        create_short_url rnd now data request urls
          = create_short_url rnd now (data\<lparr>req_shortcode := Some (generate_shortcode rnd 5)\<rparr>)
              request urls
        \<and> (urls (generate_shortcode rnd 5) \<noteq> None \<longrightarrow>
             create_short_url rnd now data request urls
               = (Inl (HTTPException 400 ''Shortcode already exists''), urls)))"
proof (intro conjI impI)
  show "distinct (ascii_letters @ digits)"
    unfolding alphabet_eq by simp
next
  assume "req_shortcode data = None"
  then show "create_short_url rnd now data request urls
          = create_short_url rnd now (data\<lparr>req_shortcode := Some (generate_shortcode rnd 5)\<rparr>)
              request urls"
    by (intro create_cong) (simp_all add: shortcode_or_def generate_nonempty)
next
  assume "req_shortcode data = None" "urls (generate_shortcode rnd 5) \<noteq> None"
  then show "create_short_url rnd now data request urls
               = (Inl (HTTPException 400 ''Shortcode already exists''), urls)"
    by (simp add: create_short_url_def shortcode_or_def)
qed (rule length_generate set_generate alphabet_eq length_alphabet)+

text \<open>An instance on the sample data.\<close>

theorem generated_shortcode_witness:
  "generate_shortcode sample_rnd 5 = ''abcde''
   \<and> length (generate_shortcode sample_rnd 5) = 5
   \<and> set (generate_shortcode sample_rnd 5) \<subseteq> set (ascii_letters @ digits)
   \<and> req_shortcode (UrlRequest_of_body ''https://b.com'' None None) = None
   \<and> [''abcde'' \<mapsto> \<lparr>entry_url = ''https://a.com'', entry_expiry = 5, entry_clicks = []\<rparr>]
        (generate_shortcode sample_rnd 5) \<noteq> None
   \<and> create_short_url sample_rnd sample_now (UrlRequest_of_body ''https://b.com'' None None)
        sample_request
        [''abcde'' \<mapsto> \<lparr>entry_url = ''https://a.com'', entry_expiry = 5, entry_clicks = []\<rparr>]
       = (Inl (HTTPException 400 ''Shortcode already exists''),
          [''abcde'' \<mapsto> \<lparr>entry_url = ''https://a.com'', entry_expiry = 5, entry_clicks = []\<rparr>])"
proof -
  have a: "req_shortcode (UrlRequest_of_body ''https://b.com'' None None) = None"
    by (simp add: UrlRequest_of_body_def)
  have b: "[''abcde'' \<mapsto> \<lparr>entry_url = ''https://a.com'', entry_expiry = 5, entry_clicks = []\<rparr>]
        (generate_shortcode sample_rnd 5) \<noteq> None"
    by (simp add: generate_sample)
  note th = generated_shortcode [where rnd = sample_rnd and now = sample_now
      and data = "UrlRequest_of_body ''https://b.com'' None None" and request = sample_request
      and urls = "[''abcde'' \<mapsto> \<lparr>entry_url = ''https://a.com'', entry_expiry = 5,
                                   entry_clicks = []\<rparr>]"]
  from th have l: "length (generate_shortcode sample_rnd 5) = 5"
    and sub: "set (generate_shortcode sample_rnd 5) \<subseteq> set (ascii_letters @ digits)"
    by blast+
  from th a b
  have c: "create_short_url sample_rnd sample_now (UrlRequest_of_body ''https://b.com'' None None)
        sample_request
        [''abcde'' \<mapsto> \<lparr>entry_url = ''https://a.com'', entry_expiry = 5, entry_clicks = []\<rparr>]
       = (Inl (HTTPException 400 ''Shortcode already exists''),
          [''abcde'' \<mapsto> \<lparr>entry_url = ''https://a.com'', entry_expiry = 5, entry_clicks = []\<rparr>])"
    by blast
  from generate_sample l sub a b c show ?thesis by blast
qed

subsection \<open>Invariants of the registry\<close>

text \<open>
  Claim C9. Over every sequence of requests (creations, resolutions, statistics), a
  shortcode that is a key stays a key of an entry with the same url and the same expiry,
  and the click log it had is a prefix of the log it has afterwards: clicks are only
  appended, none is removed or changed.
\<close>

theorem registry_invariants:
  assumes "urls sc = Some e"
  shows "\<exists>e'. run cs urls sc = Some e' \<and> entry_url e' = entry_url e
           \<and> entry_expiry e' = entry_expiry e
           \<and> prefix (entry_clicks e) (entry_clicks e')"
proof -
  from run_logged [where urls = urls and sc = sc and cs = cs, OF assms]
  show ?thesis by (auto simp add: prefix_def)
qed

text \<open>An instance on the sample data.\<close>

theorem registry_invariants_witness:
  "sample_registry ''dup''
     = Some \<lparr>entry_url = ''https://a.com'', entry_expiry = 63849515400000000,
              entry_clicks = []\<rparr>
   \<and> (\<exists>e'. run [Create sample_rnd sample_now
                    (UrlRequest_of_body ''https://b.com'' (Some 5) (Some ''dup'')) sample_request,
                  Resolve sample_now sample_now ''dup'' sample_request,
                  Resolve sample_late sample_late ''dup'' sample_request,
                  GetStats ''dup''] sample_registry ''dup'' = Some e'
          \<and> entry_url e' = ''https://a.com''
          \<and> entry_expiry e' = 63849515400000000
          \<and> prefix [] (entry_clicks e'))"
proof -
  let ?e = "\<lparr>entry_url = ''https://a.com'', entry_expiry = 63849515400000000,
              entry_clicks = []\<rparr>"
  have h: "sample_registry ''dup'' = Some ?e"
    by (simp add: sample_registry_eq)
  from registry_invariants [where urls = sample_registry and sc = "''dup''" and e = ?e
      and cs = "[Create sample_rnd sample_now
                    (UrlRequest_of_body ''https://b.com'' (Some 5) (Some ''dup'')) sample_request,
                  Resolve sample_now sample_now ''dup'' sample_request,
                  Resolve sample_late sample_late ''dup'' sample_request,
                  GetStats ''dup'']", OF h] h
  show ?thesis by (simp del: run.simps)
qed

subsection \<open>The empty shortcode\<close>

text \<open>
  Claim C10. A request whose shortcode is the empty string is handled as one with no
  shortcode: the two calls give the same result and the same registry, the code used is
  the generated one of 5 characters, and the empty string never becomes a key: a registry
  without it has none after any sequence of requests, the one of a fresh process included.
\<close>

theorem empty_shortcode_generates:
  "create_short_url rnd now (data\<lparr>req_shortcode := Some []\<rparr>) request urls
     = create_short_url rnd now (data\<lparr>req_shortcode := None\<rparr>) request urls
   \<and> shortcode_or (Some []) (generate_shortcode rnd 5) = generate_shortcode rnd 5
   \<and> length (generate_shortcode rnd 5) = 5
   \<and> (create_short_url rnd now (data\<lparr>req_shortcode := Some []\<rparr>) request urls
        = (Inr resp, urls') \<longrightarrow>
        urls' = urls(generate_shortcode rnd 5 \<mapsto>
                  \<lparr>entry_url = req_url data,
                   entry_expiry = now + req_validity data * us_per_minute,
                   entry_clicks = []\<rparr>)
        \<and> shortLink resp = rstrip_slash (base_url request) @ ''/'' @ generate_shortcode rnd 5)
   \<and> (urls [] = None \<longrightarrow> run cs urls [] = None)
   \<and> run cs Map.empty [] = None"
proof (intro conjI impI)
  assume "create_short_url rnd now (data\<lparr>req_shortcode := Some []\<rparr>) request urls
        = (Inr resp, urls')"
  from create_success(2,3) [OF this]
  show "urls' = urls(generate_shortcode rnd 5 \<mapsto>
                  \<lparr>entry_url = req_url data,
                   entry_expiry = now + req_validity data * us_per_minute,
                   entry_clicks = []\<rparr>)"
    and "shortLink resp = rstrip_slash (base_url request) @ ''/'' @ generate_shortcode rnd 5"
    by (simp_all add: shortcode_or_absent)
next
  show "create_short_url rnd now (data\<lparr>req_shortcode := Some []\<rparr>) request urls
     = create_short_url rnd now (data\<lparr>req_shortcode := None\<rparr>) request urls"
    by (intro create_cong) (simp_all add: shortcode_or_absent)
qed (simp_all add: shortcode_or_absent length_generate run_keeps_empty_absent)

text \<open>An instance on the sample data.\<close>

theorem empty_shortcode_generates_witness:
  "create_short_url sample_rnd sample_now
       (UrlRequest_of_body ''https://a.com'' None (Some [])) sample_request Map.empty
     = (Inr \<lparr>shortLink = ''http://127.0.0.1:8000/abcde'',
              expiry = isoformat 63849515400000000\<rparr>,
        [''abcde'' \<mapsto> \<lparr>entry_url = ''https://a.com'', entry_expiry = 63849515400000000,
                         entry_clicks = []\<rparr>])
   \<and> create_short_url sample_rnd sample_now
       (UrlRequest_of_body ''https://a.com'' None None) sample_request Map.empty
     = (Inr \<lparr>shortLink = ''http://127.0.0.1:8000/abcde'',
              expiry = isoformat 63849515400000000\<rparr>,
        [''abcde'' \<mapsto> \<lparr>entry_url = ''https://a.com'', entry_expiry = 63849515400000000,
                         entry_clicks = []\<rparr>])
   \<and> sample_registry [] = None
   \<and> run [Create sample_rnd sample_now
             (UrlRequest_of_body ''https://a.com'' None (Some [])) sample_request,
           Resolve sample_now sample_now [] sample_request] sample_registry [] = None"
proof -
  let ?data = "UrlRequest_of_body ''https://a.com'' None (Some [])"
  let ?resp = "\<lparr>shortLink = ''http://127.0.0.1:8000/abcde'',
              expiry = isoformat 63849515400000000\<rparr>"
  let ?urls' = "[''abcde'' \<mapsto> \<lparr>entry_url = ''https://a.com'',
                   entry_expiry = 63849515400000000, entry_clicks = []\<rparr>]"
  have d: "?data\<lparr>req_shortcode := Some []\<rparr> = ?data"
    "?data\<lparr>req_shortcode := None\<rparr> = UrlRequest_of_body ''https://a.com'' None None"
    by (simp_all add: UrlRequest_of_body_def)
  have a: "create_short_url sample_rnd sample_now ?data sample_request Map.empty
             = (Inr ?resp, ?urls')"
    by (simp add: create_eval generate_sample sample_request_def rstrip_slash_def)
  have b: "sample_registry [] = None"
    by (simp add: sample_registry_eq)
  have c: "create_short_url sample_rnd sample_now
       (UrlRequest_of_body ''https://a.com'' None None) sample_request Map.empty
     = (Inr ?resp, ?urls')"
    using empty_shortcode_generates [where rnd = sample_rnd and now = sample_now
        and data = ?data and request = sample_request and urls = Map.empty] a
    by (simp only: d)
  have e: "run [Create sample_rnd sample_now ?data sample_request,
                Resolve sample_now sample_now [] sample_request] sample_registry [] = None"
    using empty_shortcode_generates [where urls = sample_registry
        and cs = "[Create sample_rnd sample_now ?data sample_request,
                   Resolve sample_now sample_now [] sample_request]"] b
    by blast
  show ?thesis by (intro conjI a b c e)
qed

end
